theory Spec2Isabelle
  imports Main "HOL-Library.AList"
begin

section \<open>The realtime client socket (src/realtime/connection.py)\<close>

text \<open>
  A shallow embedding of the class \<open>Socket\<close> of \<^verbatim>\<open>realtime/connection.py\<close>:
  its constructor, the guard \<open>ensure_connection\<close>, and the operations \<open>connect\<close>,
  \<open>disconnect\<close>, \<open>status\<close>, \<open>subscribe\<close>, \<open>set_channel\<close>, \<open>listen\<close> and
  \<open>_keep_alive\<close>.

  \<^item> The object is a record with the attributes that \<open>__init__\<close> assigns. The attribute
    \<open>ws_connection\<close> is only annotated there, never assigned: it is an \<open>option\<close>,
    \<open>None\<close> while the attribute does not exist.
  \<^item> Objects the socket refers to live in stores: the transport objects returned by
    \<open>websockets.connect\<close> (a handle is a number, \<open>ws_open\<close> is the object's \<open>open\<close>
    attribute) and the \<open>Channel\<close> objects (the registry holds references, so that a
    listener added to a channel after \<open>set_channel\<close> is seen by \<open>listen\<close>).
  \<^item> Effects are two logs: \<open>wire\<close>, the frames handed to \<open>send\<close> (with the handle),
    and \<open>invoked\<close>, the callback invocations (callback and argument), both in order.
  \<^item> The operations are coroutines, and other coroutines run while one is suspended in
    an \<open>await\<close>. Only \<open>disconnect\<close> writes an attribute after such a suspension, so it
    is also given in two steps, the call up to \<open>await close()\<close> and the resumption;
    \<open>closing\<close> holds the transport objects of the calls that are suspended there.
  \<^item> Every \<open>raise\<close> is a value of the result: \<open>Inl e\<close> for an operation, \<open>Raised e\<close> for
    the two unbounded loops, which return \<open>Running\<close> when their finite input is used up
    and the loop is suspended.
  \<^item> What the transport, the JSON codec and the user's callbacks do is input: the outcome
    of \<open>websockets.connect\<close> and of \<open>close\<close>, what the receive iterator yields, whether the
    peer closes the link, what \<open>json.loads\<close> and \<open>json.dumps\<close> compute, and what the
    \<open>await\<close> of a callback does. \<open>print\<close>, \<open>logging\<close> and \<open>asyncio.sleep\<close> are left out, except that
    evaluating an argument of \<open>print\<close> can raise.
\<close>

subsection \<open>Values, exceptions, messages\<close>

datatype json =
    JNull
  | JBool bool
  | JNum int
  | JStr string
  | JArr "json list"
  | JObj "(string \<times> json) list"

text \<open>
  The exceptions that can leave an operation. \<open>Foreign\<close> stands for any other exception
  of the transport library or of a user callback (a refused connection, a failed
  handshake, an error in the callback's own code).
\<close>

datatype error =
    NotConnectedError string
  | AttributeError string
  | NameError string
  | TypeError
  | JSONDecodeError
  | ConnectionClosed
  | Exception string
  | Foreign string

record message =
  event :: string
  payload :: json
  ref :: json
  topic :: string

text \<open>
  Modelled from the spec: \<^verbatim>\<open>realtime/message.py\<close> (the class \<open>Message\<close>) is not among the
  sources. The spec's envelope has the fields \<open>topic\<close>, \<open>event\<close>, \<open>payload\<close>, \<open>ref\<close>;
  building one from a decoded frame fails when the frame is not an object or lacks a
  \<open>topic\<close> or an \<open>event\<close> string; an absent payload is the empty structure. The failure of
  \<open>Message(**d)\<close> is a \<open>TypeError\<close>.
\<close>

definition Message :: "json \<Rightarrow> error + message" where
  "Message d =
     (case d of
        JObj kvs \<Rightarrow>
          (case map_of kvs ''topic'' of
             Some (JStr t) \<Rightarrow>
               (case map_of kvs ''event'' of
                  Some (JStr e) \<Rightarrow>
                    Inr \<lparr>event = e,
                         payload = (case map_of kvs ''payload'' of Some p \<Rightarrow> p | None \<Rightarrow> JObj []),
                         ref = (case map_of kvs ''ref'' of Some r \<Rightarrow> r | None \<Rightarrow> JNull),
                         topic = t\<rparr>
                | _ \<Rightarrow> Inl TypeError)
           | _ \<Rightarrow> Inl TypeError)
      | _ \<Rightarrow> Inl TypeError)"

text \<open>
  Modelled from the spec: \<^verbatim>\<open>realtime/message.py\<close> (the enumeration \<open>ChannelEvents\<close>) is
  not among the sources. The spec names the reserved reply event \<open>phx_reply\<close> and the
  keep-alive event \<open>heartbeat\<close>.
\<close>

definition ChannelEvents_reply :: string where
  "ChannelEvents_reply = ''phx_reply''"

definition ChannelEvents_heartbeat :: string where
  "ChannelEvents_heartbeat = ''heartbeat''"

text \<open>
  What \<^verbatim>\<open>connection.py\<close> imports and the spec gives no value for: the JSON codec
  (\<open>json_loads\<close> is \<open>None\<close> where \<open>json.loads\<close> raises), the two constants of
  \<^verbatim>\<open>realtime/message.py\<close>, and the four functions of \<open>urllib.parse\<close>.
\<close>

record deps =
  json_loads :: "string \<Rightarrow> json option"
  json_dumps :: "json \<Rightarrow> string"
  PHOENIX_CHANNEL :: string
  HEARTBEAT_PAYLOAD :: json
  urlparse :: "string \<Rightarrow> string list"
  parse_qsl :: "string \<Rightarrow> (string \<times> string) list"
  urlencode :: "(string \<times> string) list \<Rightarrow> string"
  urlunparse :: "string list \<Rightarrow> string"

subsection \<open>Channels and listeners\<close>

text \<open>
  A callback is user code: its identity, and what \<open>await cl.callback(payload)\<close> does on a
  given argument. The call returns an awaitable (the callback is a coroutine function)
  and awaiting it completes; or the call, or the awaiting, raises; or the call returns
  a value that cannot be awaited (the callback is a plain function), and the \<open>await\<close>
  raises \<open>TypeError\<close>.
\<close>

datatype cb_result = Completes | CallbackRaises error | NotAwaitable

datatype callback = Callback (cb_id: nat) (cb_outcome: "json \<Rightarrow> cb_result")

datatype listener = CallbackListener (cl_event: string) (cl_callback: callback)

text \<open>
  Modelled from the spec: \<^verbatim>\<open>realtime/channel.py\<close> (the class \<open>Channel\<close>) is not among the
  sources. The spec's channel has a topic, join parameters and an ordered sequence of
  listeners, empty at creation; \<open>on(event, callback)\<close> appends a listener and removes none.
\<close>

record channel =
  chan_topic :: string
  chan_params :: "(string \<times> string) list"
  listeners :: "listener list"

definition Channel :: "string \<Rightarrow> (string \<times> string) list \<Rightarrow> channel" where
  "Channel t ps = \<lparr>chan_topic = t, chan_params = ps, listeners = []\<rparr>"

subsection \<open>The socket and the objects it refers to\<close>

record state =
  url :: string
  channels :: "string \<rightharpoonup> nat list"
  connected :: bool
  params :: "(string \<times> string) list"
  hb_interval :: int
  ws_connection :: "nat option"
  kept_alive :: bool
  chan_objs :: "nat \<Rightarrow> channel"
  chan_count :: nat
  ws_open :: "nat \<Rightarrow> bool"
  ws_count :: nat
  wire :: "(nat \<times> string) list"
  invoked :: "(nat \<times> json) list"
  closing :: "nat list"

text \<open>
  \<open>dict(pairs)\<close> and \<open>query.update(params)\<close>: a later pair for a key replaces the value
  and keeps the key's place; a new key goes to the end.
\<close>

definition dict_update :: "('k \<times> 'v) list \<Rightarrow> ('k \<times> 'v) list \<Rightarrow> ('k \<times> 'v) list" where
  "dict_update q kvs = foldl (\<lambda>acc (k, v). AList.update k v acc) q kvs"

definition appendParams :: "deps \<Rightarrow> string \<Rightarrow> (string \<times> string) list \<Rightarrow> string" where
  "appendParams d u ps =
     (let url_parts = urlparse d u;
          query = dict_update (dict_update [] (parse_qsl d (url_parts ! 4))) ps
      in urlunparse d (url_parts[4 := urlencode d query]))"

definition Socket_init :: "deps \<Rightarrow> string \<Rightarrow> (string \<times> string) list \<Rightarrow> int \<Rightarrow> state" where
  "Socket_init d u ps hb =
     \<lparr>url = (if ps \<noteq> [] then appendParams d u ps else u),
      channels = Map.empty,
      connected = False,
      params = ps,
      hb_interval = hb,
      ws_connection = None,
      kept_alive = False,
      chan_objs = (\<lambda>_. Channel [] []),
      chan_count = 0,
      ws_open = (\<lambda>_. False),
      ws_count = 0,
      wire = [],
      invoked = [],
      closing = []\<rparr>"

subsection \<open>The transport\<close>

text \<open>
  \<open>send\<close> on a transport object: the frame goes out when the object is open, and
  \<open>ConnectionClosed\<close> is raised when it is not.
\<close>

definition ws_send :: "nat \<Rightarrow> string \<Rightarrow> state \<Rightarrow> (error + unit) \<times> state" where
  "ws_send h frame s =
     (if ws_open s h then (Inr (), s\<lparr>wire := wire s @ [(h, frame)]\<rparr>)
      else (Inl ConnectionClosed, s))"

text \<open>The peer, or the network, closes the transport object \<open>h\<close>.\<close>

definition ws_closed :: "nat \<Rightarrow> state \<Rightarrow> state" where
  "ws_closed h s = s\<lparr>ws_open := (ws_open s)(h := False)\<rparr>"

definition peer_close :: "state \<Rightarrow> state" where
  "peer_close s = (case ws_connection s of None \<Rightarrow> s | Some h \<Rightarrow> ws_closed h s)"

text \<open>
  What \<open>websockets.connect(self.url)\<close> does: it raises, or it returns a new transport
  object whose \<open>open\<close> attribute is the given flag.
\<close>

datatype connect_result = ConnectRaises error | ConnectReturns bool

subsection \<open>The operations\<close>

definition ensure_connection ::
  "string \<Rightarrow> (state \<Rightarrow> (error + 'a) \<times> state) \<Rightarrow> state \<Rightarrow> (error + 'a) \<times> state" where
  "ensure_connection func_name func s =
     (if \<not> connected s then (Inl (NotConnectedError func_name), s) else func s)"

definition connect :: "connect_result \<Rightarrow> state \<Rightarrow> (error + unit) \<times> state" where
  "connect r s =
     (case r of
        ConnectRaises e \<Rightarrow> (Inl e, s)
      | ConnectReturns is_open \<Rightarrow>
          (let h = ws_count s;
               s' = s\<lparr>ws_open := (ws_open s)(h := is_open), ws_count := Suc h\<rparr>
           in if is_open then (Inr (), s'\<lparr>ws_connection := Some h, connected := True\<rparr>)
              else (Inl (Exception ''Connection Failed''), s')))"

text \<open>
  \<open>disconnect\<close>: the argument is the exception that \<open>close()\<close> raises, if it raises one;
  the assignment to \<open>connected\<close> comes after the call and after the \<open>print\<close>.
\<close>

definition disconnect :: "error option \<Rightarrow> state \<Rightarrow> (error + unit) \<times> state" where
  "disconnect close_raises s =
     (case ws_connection s of
        None \<Rightarrow> (Inl (AttributeError ''ws_connection''), s)
      | Some h \<Rightarrow>
          (case close_raises of
             Some e \<Rightarrow> (Inl e, s)
           | None \<Rightarrow> (Inr (), (ws_closed h s)\<lparr>connected := False\<rparr>)))"

text \<open>
  The same in two steps, for when other coroutines run in between. The call reads the
  handle (line 108) and is suspended in \<open>close()\<close> of that transport object. The
  resumption of the call suspended on the object \<open>h\<close>: \<open>close()\<close> has raised, or the object
  is closed by now and \<open>connected\<close> is written (line 110). With no such call suspended
  there is nothing to resume.
\<close>

definition disconnect_call :: "state \<Rightarrow> (error + unit) \<times> state" where
  "disconnect_call s =
     (case ws_connection s of
        None \<Rightarrow> (Inl (AttributeError ''ws_connection''), s)
      | Some h \<Rightarrow> (Inr (), s\<lparr>closing := closing s @ [h]\<rparr>))"

definition disconnect_resume :: "nat \<Rightarrow> error option \<Rightarrow> state \<Rightarrow> (error + unit) \<times> state" where
  "disconnect_resume h close_raises s =
     (if h \<notin> set (closing s) then (Inr (), s)
      else
        (case close_raises of
           Some e \<Rightarrow> (Inl e, s\<lparr>closing := remove1 h (closing s)\<rparr>)
         | None \<Rightarrow>
             (Inr (), (ws_closed h s)\<lparr>closing := remove1 h (closing s), connected := False\<rparr>)))"

definition status :: "state \<Rightarrow> (error + bool) \<times> state" where
  "status s =
     (case ws_connection s of
        None \<Rightarrow> (Inl (AttributeError ''ws_connection''), s)
      | Some h \<Rightarrow> (Inr (ws_open s h), s))"

text \<open>
  \<open>subscribe\<close>: the handler of \<open>ConnectionClosed\<close> binds no name, and its \<open>print\<close> reads
  \<open>e\<close>, which is neither a local nor a global of the module.
\<close>

definition subscribe :: "deps \<Rightarrow> string \<Rightarrow> state \<Rightarrow> (error + unit) \<times> state" where
  "subscribe d tp s =
     (case ws_connection s of
        None \<Rightarrow> (Inl (AttributeError ''ws_connection''), s)
      | Some h \<Rightarrow>
          (let data = JObj [(''topic'', JStr tp), (''event'', JStr ''phx_join''),
                            (''payload'', JObj []), (''ref'', JNull)]
           in case ws_send h (json_dumps d data) s of
                (Inr u, s') \<Rightarrow> (Inr (), s')
              | (Inl e, s') \<Rightarrow>
                  if e = ConnectionClosed then (Inl (NameError ''e''), s') else (Inl e, s')))"

text \<open>
  \<open>set_channel\<close>, under its decorator: a new \<open>Channel\<close> object, appended to the
  registry's list for the topic (\<open>defaultdict(list)\<close>: an absent topic starts empty).
\<close>

definition set_channel_body :: "string \<Rightarrow> state \<Rightarrow> (error + nat) \<times> state" where
  "set_channel_body tp s =
     (let chan = chan_count s;
          s' = s\<lparr>chan_objs := (chan_objs s)(chan := Channel tp (params s)),
                 chan_count := Suc chan\<rparr>;
          old = (case channels s' tp of None \<Rightarrow> [] | Some cs \<Rightarrow> cs)
      in (Inr chan, s'\<lparr>channels := (channels s')(tp \<mapsto> old @ [chan])\<rparr>))"

definition set_channel :: "string \<Rightarrow> state \<Rightarrow> (error + nat) \<times> state" where
  "set_channel tp = ensure_connection ''set_channel'' (set_channel_body tp)"

text \<open>
  Modelled from the spec: \<open>Channel.on\<close> of \<^verbatim>\<open>realtime/channel.py\<close>, which is not among
  the sources: the listener is appended to the channel object's list.
\<close>

definition on :: "nat \<Rightarrow> string \<Rightarrow> callback \<Rightarrow> state \<Rightarrow> state" where
  "on chan ev cb s =
     s\<lparr>chan_objs := (chan_objs s)
          (chan := (chan_objs s chan)
             \<lparr>listeners := listeners (chan_objs s chan) @ [CallbackListener ev cb]\<rparr>)\<rparr>"

subsection \<open>The receive loop\<close>

text \<open>
  The result of a loop that need not end: still running (suspended, its input used
  up), returned, or left by an exception.
\<close>

datatype loop_exit = Running | Returned | Raised error

text \<open>
  What the iterator of the transport object yields: a frame; the end of the iteration
  (the connection was closed in order); or \<open>ConnectionClosed\<close>, raised by the \<open>async for\<close>
  itself, outside the \<open>try\<close>.
\<close>

datatype incoming = Frame string | ClosedOK | ClosedError

text \<open>
  The inner \<open>for cl in channel.listeners\<close>; an \<open>await\<close> of a callback that raises ends it.
\<close>

fun listen_listeners :: "message \<Rightarrow> listener list \<Rightarrow> state \<Rightarrow> (error + unit) \<times> state" where
  "listen_listeners msg [] s = (Inr (), s)"
| "listen_listeners msg (cl # cls) s =
     (if cl_event cl = event msg then
        (let s' = s\<lparr>invoked := invoked s @ [(cb_id (cl_callback cl), payload msg)]\<rparr>
         in case cb_outcome (cl_callback cl) (payload msg) of
              Completes \<Rightarrow> listen_listeners msg cls s'
            | CallbackRaises e \<Rightarrow> (Inl e, s')
            | NotAwaitable \<Rightarrow> (Inl TypeError, s'))
      else listen_listeners msg cls s)"

text \<open>The outer \<open>for channel in self.channels.get(msg.topic, [])\<close>.\<close>

fun listen_channels :: "message \<Rightarrow> nat list \<Rightarrow> state \<Rightarrow> (error + unit) \<times> state" where
  "listen_channels msg [] s = (Inr (), s)"
| "listen_channels msg (chan # chans) s =
     (case listen_listeners msg (listeners (chan_objs s chan)) s of
        (Inl e, s') \<Rightarrow> (Inl e, s')
      | (Inr u, s') \<Rightarrow> listen_channels msg chans s')"

definition channels_get :: "state \<Rightarrow> string \<Rightarrow> nat list" where
  "channels_get s tp = (case channels s tp of None \<Rightarrow> [] | Some cs \<Rightarrow> cs)"

text \<open>
  The \<open>async for\<close> over the transport object \<open>h\<close>. Only \<open>ConnectionClosed\<close> is caught
  in the body (\<open>break\<close>); every other exception of the body leaves \<open>listen\<close>.
\<close>

fun listen_loop :: "deps \<Rightarrow> nat \<Rightarrow> incoming list \<Rightarrow> state \<Rightarrow> loop_exit \<times> state" where
  "listen_loop d h [] s = (Running, s)"
| "listen_loop d h (ClosedOK # rest) s = (Returned, ws_closed h s)"
| "listen_loop d h (ClosedError # rest) s = (Raised ConnectionClosed, ws_closed h s)"
| "listen_loop d h (Frame raw # rest) s =
     (case json_loads d raw of
        None \<Rightarrow> (Raised JSONDecodeError, s)
      | Some v \<Rightarrow>
          (case Message v of
             Inl e \<Rightarrow> (Raised e, s)
           | Inr msg \<Rightarrow>
               if event msg = ChannelEvents_reply then listen_loop d h rest s
               else
                 (case listen_channels msg (channels_get s (topic msg)) s of
                    (Inr u, s') \<Rightarrow> listen_loop d h rest s'
                  | (Inl e, s') \<Rightarrow>
                      if e = ConnectionClosed then (Returned, s') else (Raised e, s'))))"

definition listen :: "deps \<Rightarrow> incoming list \<Rightarrow> state \<Rightarrow> loop_exit \<times> state" where
  "listen d inc s =
     (case ws_connection s of
        None \<Rightarrow> (Raised (AttributeError ''ws_connection''), s)
      | Some h \<Rightarrow> listen_loop d h inc s)"

subsection \<open>The heartbeat loop\<close>

text \<open>
  One round of \<open>while True\<close>: whether the peer closes the link before the round, and
  what \<open>websockets.connect\<close> does if the round calls \<open>connect\<close>. The call of \<open>connect\<close> is
  in the handler, under no \<open>try\<close> of its own.
\<close>

datatype tick = Tick (peer_closes: bool) (reconnect: connect_result)

fun keep_alive :: "deps \<Rightarrow> tick list \<Rightarrow> state \<Rightarrow> loop_exit \<times> state" where
  "keep_alive d [] s = (Running, s)"
| "keep_alive d (t # ts) s =
     (let s0 = (if peer_closes t then peer_close s else s)
      in case ws_connection s0 of
           None \<Rightarrow> (Raised (AttributeError ''ws_connection''), s0)
         | Some h \<Rightarrow>
             (let data = JObj [(''topic'', JStr (PHOENIX_CHANNEL d)),
                               (''event'', JStr ChannelEvents_heartbeat),
                               (''payload'', HEARTBEAT_PAYLOAD d), (''ref'', JNull)]
              in case ws_send h (json_dumps d data) s0 of
                   (Inr u, s1) \<Rightarrow> keep_alive d ts s1
                 | (Inl e, s1) \<Rightarrow>
                     if e = ConnectionClosed then
                       (case connect (reconnect t) s1 of
                          (Inr u, s2) \<Rightarrow> keep_alive d ts s2
                        | (Inl e2, s2) \<Rightarrow> (Raised e2, s2))
                     else (Raised e, s1)))"

subsection \<open>Sequences of operations\<close>

text \<open>
  The steps a client, the two loops and the network can take on one socket, each with
  the outcomes of the transport it needs, and the state after a sequence of them. A step
  is what runs without another coroutine in between. \<open>connect\<close> writes its two attributes
  together when \<open>websockets.connect\<close> has returned, and that is its step. \<open>subscribe\<close>
  writes nothing after its \<open>send\<close>. A heartbeat round writes nothing but through
  \<open>connect\<close>, and a \<open>send\<close> that fails changes nothing, so that a step of another
  coroutine between the failed \<open>send\<close> and the \<open>connect\<close> is that step before the round.
  \<open>listen\<close> writes no attribute at all. A call of \<open>listen\<close> or of the heartbeat loop can
  be cut into several steps, one per batch of frames or of rounds. \<open>disconnect\<close> is two
  steps: its call and its resumption.
\<close>

datatype op =
    OpConnect connect_result
  | OpDisconnectCall
  | OpDisconnectResume nat "error option"
  | OpStatus
  | OpSubscribe string
  | OpSetChannel string
  | OpOn nat string callback
  | OpListen "incoming list"
  | OpKeepAlive "tick list"
  | OpPeerClose

fun exec :: "deps \<Rightarrow> op \<Rightarrow> state \<Rightarrow> state" where
  "exec d (OpConnect r) s = snd (connect r s)"
| "exec d OpDisconnectCall s = snd (disconnect_call s)"
| "exec d (OpDisconnectResume h c) s = snd (disconnect_resume h c s)"
| "exec d OpStatus s = snd (status s)"
| "exec d (OpSubscribe tp) s = snd (subscribe d tp s)"
| "exec d (OpSetChannel tp) s = snd (set_channel tp s)"
| "exec d (OpOn chan ev cb) s = on chan ev cb s"
| "exec d (OpListen inc) s = snd (listen d inc s)"
| "exec d (OpKeepAlive ts) s = snd (keep_alive d ts s)"
| "exec d OpPeerClose s = peer_close s"

definition run :: "deps \<Rightarrow> op list \<Rightarrow> state \<Rightarrow> state" where
  "run d ops s = foldl (\<lambda>s' o'. exec d o' s') s ops"

text \<open>The transport handle is set and the object it names is open.\<close>

definition transport_open :: "state \<Rightarrow> bool" where
  "transport_open s = (case ws_connection s of None \<Rightarrow> False | Some h \<Rightarrow> ws_open s h)"

text \<open>
  The listeners an envelope is for: those registered for its event, on the channels
  registered under its topic, channels in the order of the registry's list and listeners
  in the order of each channel's list.
\<close>

definition matching_listeners :: "state \<Rightarrow> message \<Rightarrow> listener list" where
  "matching_listeners s msg =
     filter (\<lambda>cl. cl_event cl = event msg)
       (concat (map (\<lambda>chan. listeners (chan_objs s chan)) (channels_get s (topic msg))))"

text \<open>
  The listeners of a list that a dispatch reaches when it goes through the list in order
  and stops at the first callback whose \<open>await\<close> does not complete on the payload \<open>p\<close>.
\<close>

fun until_raise :: "json \<Rightarrow> listener list \<Rightarrow> listener list" where
  "until_raise p [] = []"
| "until_raise p (cl # cls) =
     (if cb_outcome (cl_callback cl) p = Completes then cl # until_raise p cls else [cl])"


text \<open>A call of \<open>connect\<close> that returns normally.\<close>

fun is_successful_connect :: "op \<Rightarrow> bool" where
  "is_successful_connect (OpConnect (ConnectReturns is_open)) = is_open"
| "is_successful_connect _ = False"

subsection \<open>A concrete setting\<close>

text \<open>
  A codec given by a table of three frames, an encoder that writes the event name only,
  and a socket constructed for a local server with no parameters: the concrete inputs of
  the examples below.
\<close>

definition example_loads :: "string \<Rightarrow> json option" where
  "example_loads raw =
     map_of
       [(''frame new_msg'', JObj [(''topic'', JStr ''room:1''), (''event'', JStr ''new_msg''),
                                  (''payload'', JObj [(''body'', JStr ''hi'')]), (''ref'', JNull)]),
        (''frame reply'', JObj [(''topic'', JStr ''room:1''), (''event'', JStr ''phx_reply''),
                                (''payload'', JObj []), (''ref'', JNull)]),
        (''frame no topic'', JObj [(''event'', JStr ''new_msg'')])] raw"

definition example_dumps :: "json \<Rightarrow> string" where
  "example_dumps v =
     (case v of
        JObj kvs \<Rightarrow> (case map_of kvs ''event'' of Some (JStr e) \<Rightarrow> e | _ \<Rightarrow> [])
      | _ \<Rightarrow> [])"

definition example_deps :: deps where
  "example_deps =
     \<lparr>json_loads = example_loads, json_dumps = example_dumps,
      PHOENIX_CHANNEL = ''phoenix'', HEARTBEAT_PAYLOAD = JObj [(''msg'', JStr ''ping'')],
      urlparse = (\<lambda>u. [[], [], u, [], [], []]), parse_qsl = (\<lambda>_. []),
      urlencode = (\<lambda>_. []), urlunparse = concat\<rparr>"

definition example_socket :: state where
  "example_socket = Socket_init example_deps ''ws://localhost:4000/socket'' [] 5"

text \<open>
  Three sockets after a few operations: one connected, with two channels on
  \<open>room:1\<close> and a listener on each (and one for the reply event); one whose first
  listener raises; one connected and then disconnected, with nothing in between the
  two steps of \<open>disconnect\<close>.
\<close>

definition example_room :: state where
  "example_room =
     run example_deps
       [OpConnect (ConnectReturns True), OpSetChannel ''room:1'', OpSetChannel ''room:1'',
        OpOn 0 ''new_msg'' (Callback 7 (\<lambda>_. Completes)),
        OpOn 1 ''new_msg'' (Callback 8 (\<lambda>_. Completes)),
        OpOn 1 ''phx_reply'' (Callback 9 (\<lambda>_. Completes))]
       example_socket"

definition example_room_failing :: state where
  "example_room_failing =
     run example_deps
       [OpConnect (ConnectReturns True), OpSetChannel ''room:1'',
        OpOn 0 ''new_msg'' (Callback 7 (\<lambda>_. CallbackRaises (Foreign ''callback failed''))),
        OpOn 0 ''new_msg'' (Callback 8 (\<lambda>_. Completes))]
       example_socket"

definition example_closed :: state where
  "example_closed =
     run example_deps
       [OpConnect (ConnectReturns True), OpDisconnectCall, OpDisconnectResume 0 None]
       example_socket"

text \<open>
  A socket on which the heartbeat reconnects while a call of \<open>disconnect\<close> is suspended:
  the link goes down, the heartbeat's \<open>send\<close> fails and its \<open>connect\<close> stores a new
  transport; then \<open>disconnect\<close> resumes and writes the flag.
\<close>

definition example_raced :: state where
  "example_raced =
     run example_deps
       [OpConnect (ConnectReturns True), OpDisconnectCall,
        OpKeepAlive [Tick True (ConnectReturns True)], OpDisconnectResume 0 None]
       example_socket"

text \<open>A socket whose first listener is a plain function, not a coroutine function.\<close>

definition example_room_plain :: state where
  "example_room_plain =
     run example_deps
       [OpConnect (ConnectReturns True), OpSetChannel ''room:1'',
        OpOn 0 ''new_msg'' (Callback 7 (\<lambda>_. NotAwaitable)),
        OpOn 0 ''new_msg'' (Callback 8 (\<lambda>_. Completes))]
       example_socket"

section \<open>Properties\<close>

lemmas example_defs =
  example_room_def example_room_failing_def example_room_plain_def example_closed_def
  example_raced_def example_socket_def example_deps_def example_loads_def example_dumps_def

lemmas operation_defs =
  run_def Socket_init_def connect_def disconnect_def disconnect_call_def
  disconnect_resume_def status_def subscribe_def
  set_channel_def set_channel_body_def ensure_connection_def on_def listen_def
  ws_send_def ws_closed_def peer_close_def channels_get_def Channel_def Message_def
  ChannelEvents_reply_def ChannelEvents_heartbeat_def transport_open_def Let_def

lemma ws_connection_Socket_init: "ws_connection (Socket_init d u ps hb) = None"
  by (simp add: Socket_init_def)

subsection \<open>What dispatch leaves unchanged\<close>





subsection \<open>An open handle implies the flag, step by step\<close>



lemma open_connected_ws_send:
  "transport_open s \<longrightarrow> connected s \<Longrightarrow>
   transport_open (snd (ws_send h frame s)) \<longrightarrow> connected (snd (ws_send h frame s))"
  by (auto simp: ws_send_def transport_open_def split: option.splits)

lemma fst_ws_send_cases:
  "fst (ws_send h frame s) = Inr () \<or> ws_send h frame s = (Inl ConnectionClosed, s)"
  by (simp add: ws_send_def)







subsection \<open>The flag implies a stored handle\<close>





subsection \<open>An open handle implies the flag, while no handle is stored during a close\<close>





text \<open>
  The two steps of \<open>disconnect\<close> with nothing in between are the call as a whole.
\<close>

lemma disconnect_call_then_resume:
  assumes "ws_connection s = Some h" and "h \<notin> set (closing s)"
  shows "disconnect_resume h c (snd (disconnect_call s)) = disconnect c s"
proof -
  have "remove1 h (closing s @ [h]) = closing s"
    using assms(2) by (simp add: remove1_append)
  moreover have "s\<lparr>closing := closing s\<rparr> = s" by simp
  ultimately show ?thesis
    using assms(1)
    by (cases c) (simp_all add: disconnect_call_def disconnect_resume_def disconnect_def
        ws_closed_def)
qed

subsection \<open>C5: the flag and the transport\<close>




subsection \<open>C3: dispatch\<close>

lemma until_raise_all_return:
  "\<forall>cl \<in> set ls. cb_outcome (cl_callback cl) p = Completes \<Longrightarrow> until_raise p ls = ls"
  by (induction ls) simp_all

lemma until_raise_append:
  "until_raise p (xs @ ys) =
     (if \<forall>cl \<in> set xs. cb_outcome (cl_callback cl) p = Completes then xs @ until_raise p ys
      else until_raise p xs)"
  by (induction xs) auto

lemma listen_listeners_invoked:
  "listen_listeners msg ls s = (r, s') \<Longrightarrow>
   s' = s\<lparr>invoked := invoked s @
          map (\<lambda>cl. (cb_id (cl_callback cl), payload msg))
            (until_raise (payload msg) (filter (\<lambda>cl. cl_event cl = event msg) ls))\<rparr> \<and>
   (r = Inr () \<longleftrightarrow>
      (\<forall>cl \<in> set (filter (\<lambda>cl. cl_event cl = event msg) ls).
         cb_outcome (cl_callback cl) (payload msg) = Completes))"
proof (induction ls arbitrary: s)
  case Nil
  then show ?case by auto
next
  case (Cons cl cls)
  show ?case
  proof (cases "cl_event cl = event msg")
    case False
    with Cons.prems have "listen_listeners msg cls s = (r, s')" by simp
    from Cons.IH [OF this] False show ?thesis by simp
  next
    case True
    let ?s1 = "s\<lparr>invoked := invoked s @ [(cb_id (cl_callback cl), payload msg)]\<rparr>"
    show ?thesis
    proof (cases "cb_outcome (cl_callback cl) (payload msg)")
      case Completes
      with True Cons.prems have "listen_listeners msg cls ?s1 = (r, s')" by simp
      from Cons.IH [OF this] True Completes show ?thesis by simp
    next
      case (CallbackRaises e)
      with True Cons.prems show ?thesis by auto
    next
      case NotAwaitable
      with True Cons.prems show ?thesis by auto
    qed
  qed
qed

lemma listen_channels_invoked:
  "listen_channels msg cs s = (r, s') \<Longrightarrow>
   s' = s\<lparr>invoked := invoked s @
          map (\<lambda>cl. (cb_id (cl_callback cl), payload msg))
            (until_raise (payload msg) (filter (\<lambda>cl. cl_event cl = event msg)
               (concat (map (\<lambda>chan. listeners (chan_objs s chan)) cs))))\<rparr> \<and>
   (r = Inr () \<longleftrightarrow>
      (\<forall>cl \<in> set (filter (\<lambda>cl. cl_event cl = event msg)
            (concat (map (\<lambda>chan. listeners (chan_objs s chan)) cs))).
         cb_outcome (cl_callback cl) (payload msg) = Completes))"
proof (induction cs arbitrary: s)
  case Nil
  then show ?case by auto
next
  case (Cons c cs)
  let ?f = "\<lambda>cl. (cb_id (cl_callback cl), payload msg)"
  let ?m = "\<lambda>ls. filter (\<lambda>cl. cl_event cl = event msg) ls"
  let ?ok = "\<lambda>ls. \<forall>cl \<in> set ls. cb_outcome (cl_callback cl) (payload msg) = Completes"
  let ?L0 = "listeners (chan_objs s c)"
  let ?Ls = "concat (map (\<lambda>chan. listeners (chan_objs s chan)) cs)"
  obtain r1 s1 where l: "listen_listeners msg ?L0 s = (r1, s1)"
    by (cases "listen_listeners msg ?L0 s")
  from listen_listeners_invoked [OF l]
  have s1: "s1 = s\<lparr>invoked := invoked s @ map ?f (until_raise (payload msg) (?m ?L0))\<rparr>"
    and r1: "r1 = Inr () \<longleftrightarrow> ?ok (?m ?L0)"
    by blast+
  have app: "until_raise (payload msg) (?m (?L0 @ ?Ls)) =
      (if ?ok (?m ?L0) then ?m ?L0 @ until_raise (payload msg) (?m ?Ls)
       else until_raise (payload msg) (?m ?L0))"
    by (simp only: filter_append until_raise_append)
  show ?case
  proof (cases r1)
    case (Inl e)
    with l Cons.prems have e: "r = Inl e" "s' = s1" by simp_all
    from Inl r1 have n: "\<not> ?ok (?m ?L0)" by simp
    have "until_raise (payload msg) (?m (?L0 @ ?Ls)) = until_raise (payload msg) (?m ?L0)"
      by (simp only: app if_not_P [OF n])
    with e s1
    have "s' = s\<lparr>invoked := invoked s @ map ?f (until_raise (payload msg) (?m (?L0 @ ?Ls)))\<rparr>"
      by (simp only:)
    moreover have "\<not> ?ok (?m (?L0 @ ?Ls))" using n by auto
    ultimately show ?thesis using e by simp
  next
    case (Inr u)
    with l Cons.prems have "listen_channels msg cs s1 = (r, s')" by simp
    from Cons.IH [OF this]
    have s': "s' = s1\<lparr>invoked := invoked s1 @ map ?f (until_raise (payload msg)
                (?m (concat (map (\<lambda>chan. listeners (chan_objs s1 chan)) cs))))\<rparr>"
      and r: "r = Inr () \<longleftrightarrow> ?ok (?m (concat (map (\<lambda>chan. listeners (chan_objs s1 chan)) cs)))"
      by blast+
    have co: "chan_objs s1 = chan_objs s" by (simp add: s1)
    from Inr r1 have y: "?ok (?m ?L0)" by simp
    then have u: "until_raise (payload msg) (?m ?L0) = ?m ?L0"
      by (rule until_raise_all_return)
    have "until_raise (payload msg) (?m (?L0 @ ?Ls)) =
        ?m ?L0 @ until_raise (payload msg) (?m ?Ls)"
      by (simp only: app if_P [OF y])
    with s' s1 u co
    have "s' = s\<lparr>invoked := invoked s @ map ?f (until_raise (payload msg) (?m (?L0 @ ?Ls)))\<rparr>"
      by simp
    moreover have "r = Inr () \<longleftrightarrow> ?ok (?m (?L0 @ ?Ls))"
      using r y co by auto
    ultimately show ?thesis by simp
  qed
qed


text \<open>
  C3, as the code has it. For a received frame that parses to an envelope whose event is
  not the reply event, \<open>listen\<close> goes through \<open>matching_listeners\<close>, channels in registry
  order and listeners in registration order (\<open>set_channel\<close> and \<open>on\<close> append), and invokes
  each callback once per registration with the envelope's payload. As long as the
  \<open>await\<close> of every callback completes (the callback returns an awaitable, and awaiting
  it does not raise) all of them are invoked and the loop goes on to the next frame; with
  no channel under the topic, or no listener for the event, the list is empty and nothing
  is invoked. A callback whose \<open>await\<close> raises (the callback raises, or it returns a value
  that cannot be awaited) ends the dispatch and the loop: the invocations are those up to
  and including that callback.
\<close>

theorem dispatch_in_registration_order:
  assumes "json_loads d raw = Some v" and "Message v = Inr msg"
    and "event msg \<noteq> ChannelEvents_reply"
    and "ws_connection s = Some h"
  shows "((\<forall>cl \<in> set (matching_listeners s msg).
             cb_outcome (cl_callback cl) (payload msg) = Completes) \<longrightarrow>
          listen d [Frame raw] s =
            (Running, s\<lparr>invoked := invoked s @
               map (\<lambda>cl. (cb_id (cl_callback cl), payload msg)) (matching_listeners s msg)\<rparr>) \<and>
          listen d (Frame raw # rest) s = listen d rest (snd (listen d [Frame raw] s)))
         \<and> (\<not> (\<forall>cl \<in> set (matching_listeners s msg).
                  cb_outcome (cl_callback cl) (payload msg) = Completes) \<longrightarrow>
              fst (listen d [Frame raw] s) \<noteq> Running \<and>
              listen d (Frame raw # rest) s = listen d [Frame raw] s)
         \<and> snd (listen d [Frame raw] s) =
              s\<lparr>invoked := invoked s @
                 map (\<lambda>cl. (cb_id (cl_callback cl), payload msg))
                   (until_raise (payload msg) (matching_listeners s msg))\<rparr>
         \<and> (connected s \<longrightarrow>
              channels_get (snd (set_channel tp s)) tp = channels_get s tp @ [chan_count s])
         \<and> listeners (chan_objs (on chan ev cb s) chan) =
              listeners (chan_objs s chan) @ [CallbackListener ev cb]"
proof -
  let ?f = "\<lambda>cl. (cb_id (cl_callback cl), payload msg)"
  let ?ok = "\<forall>cl \<in> set (matching_listeners s msg). cb_outcome (cl_callback cl) (payload msg) = Completes"
  obtain r s' where l: "listen_channels msg (channels_get s (topic msg)) s = (r, s')"
    by (cases "listen_channels msg (channels_get s (topic msg)) s")
  from listen_channels_invoked [OF l]
  have s': "s' = s\<lparr>invoked := invoked s @
                map ?f (until_raise (payload msg) (matching_listeners s msg))\<rparr>"
    and r: "r = Inr () \<longleftrightarrow> ?ok"
    unfolding matching_listeners_def by blast+
  have wc: "ws_connection s' = Some h" using s' assms(4) by simp
  have one: "listen d [Frame raw] s =
      (case r of Inr u \<Rightarrow> (Running, s')
       | Inl e \<Rightarrow> if e = ConnectionClosed then (Returned, s') else (Raised e, s'))"
    using assms l by (simp add: listen_def split: sum.splits)
  have more: "listen d (Frame raw # rest) s =
      (case r of Inr u \<Rightarrow> listen d rest s'
       | Inl e \<Rightarrow> if e = ConnectionClosed then (Returned, s') else (Raised e, s'))"
    using assms l wc by (simp add: listen_def split: sum.splits)
  have a: "?ok \<longrightarrow>
          listen d [Frame raw] s = (Running, s\<lparr>invoked := invoked s @
               map ?f (matching_listeners s msg)\<rparr>) \<and>
          listen d (Frame raw # rest) s = listen d rest (snd (listen d [Frame raw] s))"
  proof
    assume ok: ?ok
    with r have "r = Inr ()" by simp
    moreover from ok have "until_raise (payload msg) (matching_listeners s msg) =
        matching_listeners s msg"
      by (rule until_raise_all_return)
    ultimately show "listen d [Frame raw] s = (Running, s\<lparr>invoked := invoked s @
               map ?f (matching_listeners s msg)\<rparr>) \<and>
          listen d (Frame raw # rest) s = listen d rest (snd (listen d [Frame raw] s))"
      using one more s' by simp
  qed
  have b: "\<not> ?ok \<longrightarrow> fst (listen d [Frame raw] s) \<noteq> Running \<and>
              listen d (Frame raw # rest) s = listen d [Frame raw] s"
  proof
    assume "\<not> ?ok"
    with r obtain e where "r = Inl e" by (cases r) auto
    then show "fst (listen d [Frame raw] s) \<noteq> Running \<and>
              listen d (Frame raw # rest) s = listen d [Frame raw] s"
      using one more by simp
  qed
  have c: "snd (listen d [Frame raw] s) =
      s\<lparr>invoked := invoked s @ map ?f (until_raise (payload msg) (matching_listeners s msg))\<rparr>"
    using one s' by (simp split: sum.splits)
  have d: "connected s \<longrightarrow>
      channels_get (snd (set_channel tp s)) tp = channels_get s tp @ [chan_count s]"
    by (simp add: set_channel_def ensure_connection_def set_channel_body_def channels_get_def
        Let_def)
  have e: "listeners (chan_objs (on chan ev cb s) chan) =
      listeners (chan_objs s chan) @ [CallbackListener ev cb]"
    by (simp add: on_def)
  from a b c d e show ?thesis by (intro conjI)
qed

theorem dispatch_in_registration_order_witness:
  "listen example_deps [Frame ''frame new_msg''] example_room =
     (Running, example_room\<lparr>invoked :=
        [(7, JObj [(''body'', JStr ''hi'')]), (8, JObj [(''body'', JStr ''hi'')])]\<rparr>)"
proof -
  let ?v = "JObj [(''topic'', JStr ''room:1''), (''event'', JStr ''new_msg''),
                  (''payload'', JObj [(''body'', JStr ''hi'')]), (''ref'', JNull)]"
  let ?msg = "\<lparr>event = ''new_msg'', payload = JObj [(''body'', JStr ''hi'')], ref = JNull,
               topic = ''room:1''\<rparr>"
  have 1: "json_loads example_deps ''frame new_msg'' = Some ?v"
    by (simp add: example_defs)
  have 2: "Message ?v = Inr ?msg" by (simp add: Message_def)
  have 3: "event ?msg \<noteq> ChannelEvents_reply" by (simp add: ChannelEvents_reply_def)
  have 4: "ws_connection example_room = Some 0"
    by (simp add: example_defs operation_defs)
  have m: "matching_listeners example_room ?msg =
      [CallbackListener ''new_msg'' (Callback 7 (\<lambda>_. Completes)),
       CallbackListener ''new_msg'' (Callback 8 (\<lambda>_. Completes))]"
    by (simp add: matching_listeners_def example_defs operation_defs)
  have 5: "\<forall>cl \<in> set (matching_listeners example_room ?msg).
      cb_outcome (cl_callback cl) (payload ?msg) = Completes"
    by (simp add: m)
  have i: "invoked example_room = []"
    by (simp add: example_defs operation_defs)
  from dispatch_in_registration_order [OF 1 2 3 4, where rest = "[]"] 5
  have "listen example_deps [Frame ''frame new_msg''] example_room =
     (Running, example_room\<lparr>invoked := invoked example_room @
        map (\<lambda>cl. (cb_id (cl_callback cl), payload ?msg))
          (matching_listeners example_room ?msg)\<rparr>)"
    by blast
  then show ?thesis by (simp add: m i)
qed

text \<open>
  C3 as stated fails: a callback that raises ends the dispatch of the envelope, and the
  listeners after it, registered for the same event and topic, are not invoked. The same
  happens after a callback that is a plain function: it returns, and the \<open>await\<close> of its
  result raises \<open>TypeError\<close>.
\<close>

theorem dispatch_stops_at_failing_callback_counterexample:
  "matching_listeners example_room_failing
      \<lparr>event = ''new_msg'', payload = JObj [(''body'', JStr ''hi'')], ref = JNull,
        topic = ''room:1''\<rparr> =
     [CallbackListener ''new_msg'' (Callback 7 (\<lambda>_. CallbackRaises (Foreign ''callback failed''))),
      CallbackListener ''new_msg'' (Callback 8 (\<lambda>_. Completes))] \<and>
   listen example_deps [Frame ''frame new_msg''] example_room_failing =
     (Raised (Foreign ''callback failed''),
      example_room_failing\<lparr>invoked := [(7, JObj [(''body'', JStr ''hi'')])]\<rparr>) \<and>
   matching_listeners example_room_plain
      \<lparr>event = ''new_msg'', payload = JObj [(''body'', JStr ''hi'')], ref = JNull,
        topic = ''room:1''\<rparr> =
     [CallbackListener ''new_msg'' (Callback 7 (\<lambda>_. NotAwaitable)),
      CallbackListener ''new_msg'' (Callback 8 (\<lambda>_. Completes))] \<and>
   listen example_deps [Frame ''frame new_msg''] example_room_plain =
     (Raised TypeError,
      example_room_plain\<lparr>invoked := [(7, JObj [(''body'', JStr ''hi'')])]\<rparr>)"
  by (simp add: matching_listeners_def example_defs operation_defs)

subsection \<open>C4: the reply event\<close>

text \<open>
  C4. A frame whose envelope has the reply event is skipped: \<open>listen\<close> behaves as if the
  frame had not arrived, and no callback is invoked, whatever the topic and whatever is
  registered.
\<close>

theorem reply_never_dispatched:
  assumes "json_loads d raw = Some v" and "Message v = Inr msg"
    and "event msg = ChannelEvents_reply"
  shows "listen d (Frame raw # rest) s = listen d rest s \<and>
         invoked (snd (listen d [Frame raw] s)) = invoked s"
  using assms by (simp add: listen_def split: option.splits)

theorem reply_never_dispatched_witness:
  "matching_listeners example_room
      \<lparr>event = ''phx_reply'', payload = JObj [], ref = JNull, topic = ''room:1''\<rparr> =
     [CallbackListener ''phx_reply'' (Callback 9 (\<lambda>_. Completes))] \<and>
   listen example_deps [Frame ''frame reply'', Frame ''frame new_msg''] example_room =
     listen example_deps [Frame ''frame new_msg''] example_room \<and>
   invoked (snd (listen example_deps [Frame ''frame reply''] example_room)) = []"
proof -
  let ?v = "JObj [(''topic'', JStr ''room:1''), (''event'', JStr ''phx_reply''),
                  (''payload'', JObj []), (''ref'', JNull)]"
  let ?msg = "\<lparr>event = ''phx_reply'', payload = JObj [], ref = JNull, topic = ''room:1''\<rparr>"
  have 1: "json_loads example_deps ''frame reply'' = Some ?v"
    by (simp add: example_defs)
  have 2: "Message ?v = Inr ?msg" by (simp add: Message_def)
  have 3: "event ?msg = ChannelEvents_reply" by (simp add: ChannelEvents_reply_def)
  have m: "matching_listeners example_room ?msg =
     [CallbackListener ''phx_reply'' (Callback 9 (\<lambda>_. Completes))]"
    by (simp add: matching_listeners_def example_defs operation_defs)
  have i: "invoked example_room = []"
    by (simp add: example_defs operation_defs)
  from reply_never_dispatched [OF 1 2 3, of "[Frame ''frame new_msg'']" example_room] m i
  show ?thesis by simp
qed

subsection \<open>C2: frames that do not parse\<close>

text \<open>
  C2, as the code has it. On a socket with a transport handle, a frame that \<open>json.loads\<close>
  rejects, or that \<open>Message\<close> rejects, ends \<open>listen\<close>: the parse error leaves the loop,
  the state is unchanged and the frames after it are not read.
\<close>

theorem parse_failure_ends_listen:
  assumes "ws_connection s = Some h"
  shows "(json_loads d raw = None \<longrightarrow>
            listen d (Frame raw # rest) s = (Raised JSONDecodeError, s)) \<and>
         (json_loads d raw = Some v \<and> Message v = Inl e \<longrightarrow>
            listen d (Frame raw # rest) s = (Raised e, s))"
  using assms by (simp add: listen_def)

theorem parse_failure_ends_listen_witness:
  "listen example_deps [Frame ''not json'', Frame ''frame new_msg''] example_room =
     (Raised JSONDecodeError, example_room) \<and>
   listen example_deps [Frame ''frame no topic'', Frame ''frame new_msg''] example_room =
     (Raised TypeError, example_room)"
proof -
  have 0: "ws_connection example_room = Some 0"
    by (simp add: example_defs operation_defs)
  have 1: "json_loads example_deps ''not json'' = None"
    by (simp add: example_defs)
  have 2: "json_loads example_deps ''frame no topic'' = Some (JObj [(''event'', JStr ''new_msg'')])"
    by (simp add: example_defs)
  have 3: "Message (JObj [(''event'', JStr ''new_msg'')]) = Inl TypeError"
    by (simp add: Message_def)
  from parse_failure_ends_listen [OF 0, where d = example_deps and raw = "''not json''"
         and rest = "[Frame ''frame new_msg'']"]
       parse_failure_ends_listen [OF 0, where d = example_deps and raw = "''frame no topic''"
         and v = "JObj [(''event'', JStr ''new_msg'')]" and e = TypeError
         and rest = "[Frame ''frame new_msg'']"]
       1 2 3
  show ?thesis by simp
qed

text \<open>
  C2 as stated fails: the loop does not go on after a bad frame; the good frame behind it,
  which alone is dispatched to both listeners, is never dispatched.
\<close>

theorem listen_stops_at_bad_frame_counterexample:
  "fst (listen example_deps [Frame ''not json'', Frame ''frame new_msg''] example_room) =
     Raised JSONDecodeError \<and>
   invoked (snd (listen example_deps [Frame ''not json'', Frame ''frame new_msg''] example_room)) = [] \<and>
   invoked (snd (listen example_deps [Frame ''frame new_msg''] example_room)) =
     [(7, JObj [(''body'', JStr ''hi'')]), (8, JObj [(''body'', JStr ''hi'')])]"
  by (simp add: example_defs operation_defs)

subsection \<open>C9: the handler in \<open>subscribe\<close>\<close>

text \<open>
  C9. When the transport handle is closed, the \<open>send\<close> of \<open>subscribe\<close> raises
  \<open>ConnectionClosed\<close>; the handler catches it and then fails itself with
  \<open>NameError\<close> for the name \<open>e\<close>: that is what \<open>subscribe\<close> raises, with nothing sent.
\<close>

theorem subscribe_handler_raises_NameError:
  assumes "ws_connection s = Some h" and "\<not> ws_open s h"
  shows "ws_send h frame s = (Inl ConnectionClosed, s) \<and>
         subscribe d tp s = (Inl (NameError ''e''), s)"
  using assms by (simp add: subscribe_def ws_send_def)

theorem subscribe_handler_raises_NameError_witness:
  "ws_connection example_closed = Some 0 \<and> \<not> ws_open example_closed 0 \<and>
   subscribe example_deps ''room:1'' example_closed = (Inl (NameError ''e''), example_closed)"
proof -
  have 1: "ws_connection example_closed = Some 0"
    by (simp add: example_defs operation_defs)
  have 2: "\<not> ws_open example_closed 0"
    by (simp add: example_defs operation_defs)
  from subscribe_handler_raises_NameError [OF 1 2] 1 2 show ?thesis by simp
qed

subsection \<open>C6: \<open>disconnect\<close>\<close>




subsection \<open>C7: \<open>connect\<close>\<close>

text \<open>
  C7, as the code has it. \<open>connect\<close> returns normally exactly when
  \<open>websockets.connect\<close> returns an open transport object; then the new handle is stored
  and \<open>connected\<close> is true. Otherwise it raises the transport's own exception, or
  \<open>Exception("Connection Failed")\<close> for an object that is not open, and leaves \<open>connected\<close>
  and the stored handle as they were.
\<close>

theorem connect_outcomes:
  "(fst (connect r s) = Inr () \<longleftrightarrow> r = ConnectReturns True) \<and>
   (fst (connect r s) = Inr () \<longrightarrow>
      connected (snd (connect r s)) \<and>
      ws_connection (snd (connect r s)) = Some (ws_count s) \<and>
      ws_open (snd (connect r s)) (ws_count s)) \<and>
   (\<forall>e. fst (connect r s) = Inl e \<longrightarrow>
      (r = ConnectRaises e \<or> (r = ConnectReturns False \<and> e = Exception ''Connection Failed'')) \<and>
      connected (snd (connect r s)) = connected s \<and>
      ws_connection (snd (connect r s)) = ws_connection s)"
  by (cases r) (auto simp: connect_def Let_def)

theorem connect_outcomes_witness:
  "fst (connect (ConnectReturns True) example_socket) = Inr () \<and>
   connected (snd (connect (ConnectReturns True) example_socket)) \<and>
   ws_connection (snd (connect (ConnectReturns True) example_socket)) = Some 0 \<and>
   fst (connect (ConnectRaises (Foreign ''refused'')) example_socket) = Inl (Foreign ''refused'') \<and>
   \<not> connected (snd (connect (ConnectRaises (Foreign ''refused'')) example_socket))"
proof -
  have 0: "ws_count example_socket = 0" "\<not> connected example_socket"
    by (simp_all add: example_defs operation_defs)
  have 1: "fst (connect (ConnectRaises (Foreign ''refused'')) example_socket) = Inl (Foreign ''refused'')"
    by (simp add: connect_def)
  from connect_outcomes [of "ConnectReturns True" example_socket]
       connect_outcomes [of "ConnectRaises (Foreign ''refused'')" example_socket] 0 1
  show ?thesis by simp
qed

text \<open>
  C7 as stated fails: a failed \<open>connect\<close> on a socket whose flag is set (here after the
  peer closed the link, as in the heartbeat's reconnection) leaves \<open>connected\<close> true.
\<close>

theorem failed_reconnect_keeps_flag_counterexample:
  "fst (connect (ConnectRaises (Foreign ''refused''))
          (run example_deps [OpConnect (ConnectReturns True), OpPeerClose] example_socket)) =
     Inl (Foreign ''refused'') \<and>
   connected (snd (connect (ConnectRaises (Foreign ''refused''))
          (run example_deps [OpConnect (ConnectReturns True), OpPeerClose] example_socket)))"
  by (simp add: example_defs operation_defs)

subsection \<open>C8: the heartbeat's reconnection\<close>

lemma keep_alive_send_fails:
  assumes "ws_connection s = Some h" and "peer_closes t \<or> \<not> ws_open s h"
  shows "keep_alive d (t # ts) s =
           (case connect (reconnect t) (ws_closed h s) of
              (Inr u, s2) \<Rightarrow> keep_alive d ts s2
            | (Inl e2, s2) \<Rightarrow> (Raised e2, s2))"
proof (cases "peer_closes t")
  case True
  with assms(1) show ?thesis
    by (simp add: peer_close_def ws_closed_def ws_send_def)
next
  case False
  with assms(2) have "\<not> ws_open s h" by simp
  then have "ws_closed h s = s" by (simp add: ws_closed_def fun_upd_idem)
  with False assms(1) \<open>\<not> ws_open s h\<close> show ?thesis
    by (simp add: ws_send_def)
qed

text \<open>
  C8, as the code has it. When the heartbeat's \<open>send\<close> fails because the transport is
  closed (it was closed before the round, or the peer closes it now), the round calls
  \<open>connect\<close> once. If \<open>connect\<close> returns, the loop goes on with the new handle, \<open>connected\<close>
  set, and nothing raised. If \<open>connect\<close> raises, its exception leaves the loop: the
  heartbeat ends there, whatever later rounds would have brought.
\<close>

theorem heartbeat_reconnects_once:
  assumes "ws_connection s = Some h" and "pc \<or> \<not> ws_open s h"
  shows "keep_alive d (Tick pc (ConnectReturns True) # ts) s =
           keep_alive d ts (snd (connect (ConnectReturns True) (ws_closed h s))) \<and>
         keep_alive d [Tick pc (ConnectReturns True)] s =
           (Running, snd (connect (ConnectReturns True) (ws_closed h s))) \<and>
         connected (snd (keep_alive d [Tick pc (ConnectReturns True)] s)) \<and>
         transport_open (snd (keep_alive d [Tick pc (ConnectReturns True)] s)) \<and>
         keep_alive d (Tick pc (ConnectRaises e) # ts) s = (Raised e, ws_closed h s) \<and>
         fst (keep_alive d (Tick pc (ConnectReturns False) # ts) s) =
           Raised (Exception ''Connection Failed'')"
proof -
  have k: "\<And>r ts. keep_alive d (Tick pc r # ts) s =
           (case connect r (ws_closed h s) of
              (Inr u, s2) \<Rightarrow> keep_alive d ts s2
            | (Inl e2, s2) \<Rightarrow> (Raised e2, s2))"
    using keep_alive_send_fails [OF assms(1), of "Tick pc _"] assms(2) by simp
  show ?thesis
    unfolding k by (simp add: connect_def Let_def transport_open_def)
qed

theorem heartbeat_reconnects_once_witness:
  "keep_alive example_deps [Tick False (ConnectReturns True), Tick False (ConnectReturns True)]
      example_closed =
     (Running, (snd (connect (ConnectReturns True) example_closed))\<lparr>wire := [(1, ''heartbeat'')]\<rparr>) \<and>
   keep_alive example_deps [Tick False (ConnectRaises (Foreign ''refused''))] example_closed =
     (Raised (Foreign ''refused''), example_closed)"
proof -
  have 1: "ws_connection example_closed = Some 0"
    by (simp add: example_defs operation_defs)
  have 2: "False \<or> \<not> ws_open example_closed 0"
    by (simp add: example_defs operation_defs)
  have c: "ws_closed 0 example_closed = example_closed"
    by (simp add: example_defs operation_defs)
  have 3: "keep_alive example_deps [Tick False (ConnectReturns True)]
             (snd (connect (ConnectReturns True) example_closed)) =
     (Running, (snd (connect (ConnectReturns True) example_closed))\<lparr>wire := [(1, ''heartbeat'')]\<rparr>)"
    by (simp add: example_defs operation_defs)
  from heartbeat_reconnects_once [OF 1 2, where d = example_deps
         and ts = "[Tick False (ConnectReturns True)]" and e = "Foreign ''refused''"]
       heartbeat_reconnects_once [OF 1 2, where d = example_deps
         and ts = "[]" and e = "Foreign ''refused''"] 3 c
  show ?thesis by (simp del: keep_alive.simps)
qed

text \<open>
  C8 as stated fails: after one failed reconnection the loop has ended with the error
  of \<open>connect\<close>; the next round, in which the server would have accepted, never runs.
\<close>

theorem heartbeat_ends_on_failed_reconnect_counterexample:
  "keep_alive example_deps
      [Tick False (ConnectRaises (Foreign ''refused'')), Tick False (ConnectReturns True)]
      example_closed =
     (Raised (Foreign ''refused''), example_closed)"
  by (simp add: example_defs operation_defs)

subsection \<open>C10: a socket that never connected\<close>

lemma keep_alive_no_handle:
  "ws_connection s = None \<Longrightarrow>
   keep_alive d (t # ts) s = (Raised (AttributeError ''ws_connection''), s)"
  by (simp add: peer_close_def)

lemma no_handle_exec:
  assumes "ws_connection s = None" and "\<not> is_successful_connect x"
  shows "ws_connection (exec d x s) = None"
proof (cases x)
  case (OpConnect r)
  with assms show ?thesis by (cases r) (auto simp: connect_def Let_def)
next
  case (OpKeepAlive ts)
  with assms show ?thesis
    by (cases ts) (simp_all add: keep_alive_no_handle del: keep_alive.simps(2))
qed (use assms in \<open>auto simp: disconnect_call_def disconnect_resume_def ws_closed_def
      status_def subscribe_def set_channel_def ensure_connection_def set_channel_body_def
      on_def listen_def peer_close_def Let_def split: option.splits\<close>)

lemma no_handle_run:
  "ws_connection s = None \<Longrightarrow> \<forall>x \<in> set ops. \<not> is_successful_connect x \<Longrightarrow>
   ws_connection (run d ops s) = None"
  unfolding run_def
proof (induction ops arbitrary: s)
  case Nil
  then show ?case by simp
next
  case (Cons x xs)
  from Cons.prems have "ws_connection (exec d x s) = None"
    by (intro no_handle_exec) simp_all
  from Cons.IH [OF this] Cons.prems(2) show ?case by simp
qed

text \<open>
  C10. On a constructed socket, after any operations among which no \<open>connect\<close> returned
  normally, \<open>status\<close>, \<open>subscribe\<close>, \<open>disconnect\<close>, \<open>listen\<close> and the first round of the
  heartbeat loop all raise \<open>AttributeError\<close> for \<open>ws_connection\<close> and change nothing; in
  particular \<open>status\<close> does not return \<open>False\<close>.
\<close>

theorem never_connected_AttributeError:
  assumes "\<forall>x \<in> set ops. \<not> is_successful_connect x"
    and "s = run d ops (Socket_init d u ps hb)"
  shows "status s = (Inl (AttributeError ''ws_connection''), s) \<and>
         subscribe d tp s = (Inl (AttributeError ''ws_connection''), s) \<and>
         disconnect c s = (Inl (AttributeError ''ws_connection''), s) \<and>
         listen d inc s = (Raised (AttributeError ''ws_connection''), s) \<and>
         keep_alive d (t # ts) s = (Raised (AttributeError ''ws_connection''), s) \<and>
         fst (status s) \<noteq> Inr False"
proof -
  have "ws_connection s = None"
    unfolding assms(2) by (rule no_handle_run [OF ws_connection_Socket_init assms(1)])
  then show ?thesis
    by (simp add: status_def subscribe_def disconnect_def listen_def keep_alive_no_handle
        del: keep_alive.simps)
qed

theorem never_connected_AttributeError_witness:
  "status (run example_deps [OpSetChannel ''room:1'', OpConnect (ConnectRaises (Foreign ''refused''))]
      example_socket) =
     (Inl (AttributeError ''ws_connection''), example_socket) \<and>
   subscribe example_deps ''room:1'' example_socket =
     (Inl (AttributeError ''ws_connection''), example_socket) \<and>
   keep_alive example_deps [Tick False (ConnectReturns True)] example_socket =
     (Raised (AttributeError ''ws_connection''), example_socket)"
proof -
  let ?ops = "[OpSetChannel ''room:1'', OpConnect (ConnectRaises (Foreign ''refused''))]"
  have 1: "\<forall>x \<in> set ?ops. \<not> is_successful_connect x" by simp
  have 2: "run example_deps ?ops example_socket = example_socket"
    by (simp add: example_defs operation_defs)
  have 3: "example_socket =
     run example_deps ?ops (Socket_init example_deps ''ws://localhost:4000/socket'' [] 5)"
    using 2 by (simp add: example_socket_def)
  from never_connected_AttributeError [OF 1 3, where tp = "''room:1''"
      and t = "Tick False (ConnectReturns True)" and ts = "[]"] 2
  show ?thesis by (simp del: keep_alive.simps)
qed

subsection \<open>C1: the guard\<close>




end
